theory Spec2Isabelle
  imports Complex_Main "HOL-Library.Sublist"
begin

section \<open>JavaScript values, thrown values and call outcomes\<close>

text \<open>
  The embedding follows \<^verbatim>\<open>src/index.ts\<close>. Values of TypeScript type \<^verbatim>\<open>any\<close> that
  the code parses, validates and hands to functions are JSON values. A number is kept
  as an integer: no definition below computes with it. Writing to the console is not
  modelled. A function that acts on the outside (the provider call, a validator, the
  body of a registered function, a retried callable) takes the world \<open>'s\<close> and gives the
  new one with its result.
\<close>

datatype json =
    JNull
  | JBool bool
  | JNumber int
  | JString string
  | JArray "json list"
  | JObject "(string \<times> json) list"

text \<open>
  What a \<^verbatim>\<open>throw\<close> or a rejected promise carries: an \<^verbatim>\<open>Error\<close> instance with its
  message, a \<^verbatim>\<open>TypeError\<close> raised by the runtime (also an \<^verbatim>\<open>Error\<close> instance), or
  any other thrown value: \<^verbatim>\<open>undefined\<close>, or a JSON value (an object has each key once).
\<close>

datatype exn =
    Error string
  | TypeError string
  | Thrown json
  | ThrownUndefined

fun instanceof_Error :: "exn \<Rightarrow> bool" where
  "instanceof_Error (Error m) = True"
| "instanceof_Error (TypeError m) = True"
| "instanceof_Error (Thrown v) = False"
| "instanceof_Error ThrownUndefined = False"

text \<open>
  What calling a JavaScript function gives its caller: a synchronous throw, a plain
  value, or a promise that is later fulfilled or rejected.
\<close>

datatype 'a outcome =
    Throws exn
  | Returns 'a
  | Resolves 'a
  | Rejects exn

text \<open>
  \<^verbatim>\<open>try { ... await Promise.resolve(f()) ... } catch (error)\<close>: the synchronous throw
  and the rejection both reach the \<^verbatim>\<open>catch\<close>.
\<close>

fun awaited :: "'a outcome \<Rightarrow> exn + 'a" where
  "awaited (Throws e) = Inl e"
| "awaited (Returns v) = Inr v"
| "awaited (Resolves v) = Inr v"
| "awaited (Rejects e) = Inl e"

text \<open>\<^verbatim>\<open>x || d\<close> on an optional string: absent and empty strings are falsy.\<close>

definition or_default :: "string option \<Rightarrow> string \<Rightarrow> string" where
  "or_default x d = (case x of None \<Rightarrow> d | Some t \<Rightarrow> if t = [] then d else t)"

text \<open>Decimal text of a number, as a template literal prints it.\<close>

fun string_of_nat :: "nat \<Rightarrow> string" where
  "string_of_nat n =
     (if n < 10 then [''0123456789'' ! n]
      else string_of_nat (n div 10) @ [''0123456789'' ! (n mod 10)])"

section \<open>Data model\<close>

datatype ChatRole = System | User | Assistant | Function

record FunctionCall =
  fc_name :: string
  arguments :: "string option"

record ChatMessage =
  role :: ChatRole
  content :: "string option"
  msg_name :: "string option"
  function_call :: "FunctionCall option"

type_synonym ChatHistory = "ChatMessage list"

record ChatCompletionFunctions =
  fn_name :: string
  fn_description :: "string option"
  fn_parameters :: "json option"

record CreateChatCompletionRequest =
  rq_model :: string
  rq_temperature :: rat
  rq_messages :: ChatHistory
  rq_functions :: "ChatCompletionFunctions list option"

record Choice =
  message :: ChatMessage

record CreateChatCompletionResponse =
  choices :: "Choice list"

text \<open>
  What the client built by \<^verbatim>\<open>getOpenAiApi\<close> resolves with: the source types it
  \<^verbatim>\<open>AxiosResponse<CreateChatCompletionResponse>\<close>, and \<^verbatim>\<open>getFunctionResult\<close> reads the
  completion from it as \<^verbatim>\<open>response.data.choices\<close>. The object carries the completion
  under \<^verbatim>\<open>data\<close>, beside the status of the exchange.
\<close>

record AxiosResponse =
  data :: CreateChatCompletionResponse
  status :: nat
  statusText :: string

text \<open>
  \<^verbatim>\<open>responseData.choices\<close>, read from the response object itself: an
  \<^verbatim>\<open>AxiosResponse\<close> has no property \<^verbatim>\<open>choices\<close>, so the read gives \<^verbatim>\<open>undefined\<close>
  (\<open>None\<close>).
\<close>

definition choices_property :: "AxiosResponse \<Rightarrow> Choice list option" where
  "choices_property responseData = None"

text \<open>
  The falsy values, and the text \<^verbatim>\<open>JSON.stringify(value, null, 2)\<close> shows for each in a
  template literal; \<^verbatim>\<open>JSON.stringify\<close> throws on a \<^verbatim>\<open>BigInt\<close> (\<open>None\<close>).
\<close>

datatype falsy = Undefined | Null | BooleanFalse | Zero | NaN | EmptyString | BigIntZero

fun falsy_text :: "falsy \<Rightarrow> string option" where
  "falsy_text Undefined = Some ''undefined''"
| "falsy_text Null = Some ''null''"
| "falsy_text BooleanFalse = Some ''false''"
| "falsy_text Zero = Some ''0''"
| "falsy_text NaN = Some ''null''"
| "falsy_text EmptyString = Some [CHR 0x22, CHR 0x22]"
| "falsy_text BigIntZero = None"

datatype provider_value = Response AxiosResponse | Falsy falsy

text \<open>
  The error a failed provider call throws, with the three properties
  \<^verbatim>\<open>extendAndThrowOpenAIError\<close> reads: \<^verbatim>\<open>message\<close>, \<^verbatim>\<open>isAxiosError\<close> and, when
  \<^verbatim>\<open>response\<close> is defined, \<^verbatim>\<open>response.data.error\<close>.
\<close>

record ApiError =
  err_message :: "string option"
  isAxiosError :: bool
  err_response :: "json option"

text \<open>
  \<^verbatim>\<open>JSON.parse\<close>, \<^verbatim>\<open>JSON.stringify\<close> and the conversion of a value to the text that a
  template literal shows belong to the runtime, not to the repository: they are
  parameters. \<^verbatim>\<open>JSON_parse\<close> gives \<open>None\<close> where \<^verbatim>\<open>JSON.parse\<close> throws a
  \<^verbatim>\<open>SyntaxError\<close>; there is one \<^verbatim>\<open>stringify\<close> for each type of object the code
  serialises.
\<close>

record JSON =
  JSON_parse :: "string \<Rightarrow> json option"
  stringify_value :: "json \<Rightarrow> string"
  stringify_message :: "ChatMessage \<Rightarrow> string"
  stringify_functions :: "ChatCompletionFunctions list option \<Rightarrow> string"
  stringify_request :: "CreateChatCompletionRequest \<Rightarrow> string"
  template_text :: "json \<Rightarrow> string"

text \<open>
  The text that a template literal shows for \<^verbatim>\<open>err.message\<close>. Reading the property of
  \<^verbatim>\<open>undefined\<close> or \<^verbatim>\<open>null\<close> throws; an object shows its \<^verbatim>\<open>message\<close> property when
  it has one; every other value has none and shows \<^verbatim>\<open>undefined\<close>.
\<close>

fun message_text :: "JSON \<Rightarrow> exn \<Rightarrow> exn + string" where
  "message_text J (Error m) = Inr m"
| "message_text J (TypeError m) = Inr m"
| "message_text J ThrownUndefined =
     Inl (TypeError ''Cannot read properties of undefined (reading 'message')'')"
| "message_text J (Thrown JNull) =
     Inl (TypeError ''Cannot read properties of null (reading 'message')'')"
| "message_text J (Thrown (JObject kvs)) =
     (case map_of kvs ''message'' of
        None \<Rightarrow> Inr ''undefined''
      | Some v \<Rightarrow> Inr (template_text J v))"
| "message_text J (Thrown v) = Inr ''undefined''"

text \<open>
  The provider call \<^verbatim>\<open>getOpenAiApi().createChatCompletion(request)\<close>, awaited: it acts on
  the world \<open>'s\<close> and either throws or gives a value: the response object, or a falsy
  value.
\<close>

type_synonym 's provider =
  "CreateChatCompletionRequest \<Rightarrow> 's \<Rightarrow> (ApiError + provider_value) \<times> 's"

definition MAX_RETRIES :: nat where
  "MAX_RETRIES = 5"

section \<open>Provider errors and response validation\<close>

definition newline :: string where
  "newline = [CHR 0x0A]"

definition extendAndThrowOpenAIError :: "JSON \<Rightarrow> ApiError \<Rightarrow> CreateChatCompletionRequest \<Rightarrow> exn" where
  "extendAndThrowOpenAIError J error openaiRequest =
     (let message0 = (case err_message error of None \<Rightarrow> ''unknown error'' | Some m \<Rightarrow> m);
          message1 = (case err_response error of
                        Some e \<Rightarrow> if isAxiosError error then message0 @ '': '' @ stringify_value J e
                                  else message0
                      | None \<Rightarrow> message0);
          message2 = message1 @ newline @ ''Here was the request:'' @ newline
                       @ stringify_request J openaiRequest
      in Error (''error calling OpenAI: '' @ message2))"

definition validateCreateChatCompletionResponse :: "provider_value \<Rightarrow> exn + AxiosResponse" where
  "validateCreateChatCompletionResponse response =
     (case response of
        Response r \<Rightarrow> Inr r
      | Falsy f \<Rightarrow>
          (case falsy_text f of
             None \<Rightarrow> Inl (TypeError ''Do not know how to serialize a BigInt'')
           | Some shown \<Rightarrow>
               Inl (Error (''OpenAI response data validation error: '' @ newline
                 @ ''        ========'' @ newline
                 @ ''        response.data:'' @ newline
                 @ ''        '' @ newline
                 @ ''        '' @ shown @ newline
                 @ ''        ''))))"

section \<open>The context window and \<^verbatim>\<open>getChatCompletion\<close>\<close>

definition approximateMaxChars :: "string \<Rightarrow> exn + nat" where
  "approximateMaxChars model =
     (if model = ''gpt-4'' then Inr (8000 * 4) else Inl (Error (''unknown model: '' @ model)))"

text \<open>
  The source multiplies by the double \<^verbatim>\<open>0.8\<close>; for the only budget of the table the
  double product \<^verbatim>\<open>32000 * 0.8\<close> is exactly 25600, the value of the rational product.
\<close>

definition FRACTION_OF_MAX_CHARS_TO_USE :: rat where
  "FRACTION_OF_MAX_CHARS_TO_USE = 8 / 10"

text \<open>
  The \<^verbatim>\<open>while\<close> loop of \<^verbatim>\<open>getChatCompletion\<close> on its two variables
  \<^verbatim>\<open>startingMessageIndex\<close> and \<^verbatim>\<open>totalChars\<close>; it gives their final values.
\<close>

fun includeOlder :: "JSON \<Rightarrow> rat \<Rightarrow> ChatHistory \<Rightarrow> nat \<Rightarrow> nat \<Rightarrow> nat \<times> nat" where
  "includeOlder J maxChars messages startingMessageIndex totalChars =
     (if startingMessageIndex > 0 \<and>
         of_nat (totalChars + length (stringify_message J (messages ! (startingMessageIndex - 1))))
           < maxChars
      then includeOlder J maxChars messages (startingMessageIndex - 1)
             (totalChars + length (stringify_message J (messages ! (startingMessageIndex - 1))))
      else (startingMessageIndex, totalChars))"

declare includeOlder.simps [simp del]

text \<open>
  The window for a budget \<open>maxChars\<close> and a base size \<open>baseChars\<close>: the index where the
  kept messages start. Reading \<^verbatim>\<open>.length\<close> of \<^verbatim>\<open>JSON.stringify(messages[-1])\<close>, which is
  \<^verbatim>\<open>undefined\<close>, throws for the empty history.
\<close>

definition selectStart :: "JSON \<Rightarrow> rat \<Rightarrow> nat \<Rightarrow> ChatHistory \<Rightarrow> exn + nat" where
  "selectStart J maxChars baseChars messages =
     (if messages = []
      then Inl (TypeError ''Cannot read properties of undefined (reading 'length')'')
      else
        let startingMessageIndex = length messages - 1;
            totalChars = baseChars + length (stringify_message J (messages ! startingMessageIndex))
        in Inr (fst (includeOlder J maxChars messages startingMessageIndex totalChars)))"

definition systemMessage_of :: "string \<Rightarrow> ChatMessage" where
  "systemMessage_of systemMessageContent =
     \<lparr>role = System, content = Some systemMessageContent, msg_name = None, function_call = None\<rparr>"

definition baseChars_of :: "JSON \<Rightarrow> string \<Rightarrow> ChatCompletionFunctions list option \<Rightarrow> nat" where
  "baseChars_of J systemMessageContent functions =
     length (stringify_message J (systemMessage_of systemMessageContent))
       + length (stringify_functions J functions)"

text \<open>The request that \<^verbatim>\<open>getChatCompletion\<close> builds before it calls the provider.\<close>

definition openaiRequest_of ::
  "JSON \<Rightarrow> ChatHistory \<Rightarrow> string \<Rightarrow> string \<Rightarrow> rat \<Rightarrow> ChatCompletionFunctions list option
     \<Rightarrow> exn + CreateChatCompletionRequest" where
  "openaiRequest_of J messages systemMessageContent model temperature functions =
     (case approximateMaxChars model of
        Inl e \<Rightarrow> Inl e
      | Inr approx \<Rightarrow>
          let maxChars = of_nat approx * FRACTION_OF_MAX_CHARS_TO_USE;
              baseChars = baseChars_of J systemMessageContent functions
          in (case selectStart J maxChars baseChars messages of
                Inl e \<Rightarrow> Inl e
              | Inr startingMessageIndex \<Rightarrow>
                  Inr \<lparr>rq_model = model, rq_temperature = temperature,
                       rq_messages = systemMessage_of systemMessageContent
                                      # drop startingMessageIndex messages,
                       rq_functions = functions\<rparr>))"

text \<open>
  After the provider call: a thrown error is extended and rethrown, the response is
  validated and returned as it is, and \<^verbatim>\<open>responseData.choices[0].message\<close> is read from
  it; the message would be returned with \<^verbatim>\<open>content || ""\<close>.
\<close>

definition responseMessage_of ::
  "JSON \<Rightarrow> CreateChatCompletionRequest \<Rightarrow> (ApiError + provider_value) \<times> 's
     \<Rightarrow> (exn + ChatMessage) \<times> 's" where
  "responseMessage_of J openaiRequest r =
     (case r of
        (Inl error, s') \<Rightarrow> (Inl (extendAndThrowOpenAIError J error openaiRequest), s')
      | (Inr response, s') \<Rightarrow>
          (case validateCreateChatCompletionResponse response of
             Inl e \<Rightarrow> (Inl e, s')
           | Inr responseData \<Rightarrow>
               (case choices_property responseData of
                  None \<Rightarrow> (Inl (TypeError ''Cannot read properties of undefined (reading '0')''), s')
                | Some [] \<Rightarrow>
                    (Inl (TypeError ''Cannot read properties of undefined (reading 'message')''), s')
                | Some (c # _) \<Rightarrow>
                    let responseMessage = message c
                    in (Inr \<lparr>role = role responseMessage,
                             content = Some (or_default (content responseMessage) []),
                             msg_name = None,
                             function_call = function_call responseMessage\<rparr>, s'))))"

definition getChatCompletion ::
  "JSON \<Rightarrow> 's provider \<Rightarrow> ChatHistory \<Rightarrow> string \<Rightarrow> string \<Rightarrow> rat
     \<Rightarrow> ChatCompletionFunctions list option \<Rightarrow> 's \<Rightarrow> (exn + ChatMessage) \<times> 's" where
  "getChatCompletion J createChatCompletion messages systemMessageContent model temperature
       functions s =
     (case openaiRequest_of J messages systemMessageContent model temperature functions of
        Inl e \<Rightarrow> (Inl e, s)
      | Inr openaiRequest \<Rightarrow>
          responseMessage_of J openaiRequest (createChatCompletion openaiRequest s))"

section \<open>\<^verbatim>\<open>getCompletionUsingChatModel\<close>\<close>

definition getCompletionUsingChatModel ::
  "JSON \<Rightarrow> 's provider \<Rightarrow> string \<Rightarrow> string \<Rightarrow> string \<Rightarrow> rat \<Rightarrow> 's \<Rightarrow> (exn + ChatMessage) \<times> 's" where
  "getCompletionUsingChatModel J createChatCompletion systemMessage prompt model temperature s =
     (let promptMessages =
            [\<lparr>role = System, content = Some systemMessage, msg_name = None, function_call = None\<rparr>,
             \<lparr>role = User, content = Some prompt, msg_name = None, function_call = None\<rparr>];
          openaiRequest = \<lparr>rq_model = model, rq_temperature = temperature,
                           rq_messages = promptMessages, rq_functions = None\<rparr>
      in (case createChatCompletion openaiRequest s of
            (Inl error, s') \<Rightarrow> (Inl (extendAndThrowOpenAIError J error openaiRequest), s')
          | (Inr response, s') \<Rightarrow>
              (case validateCreateChatCompletionResponse response of
                 Inl e \<Rightarrow> (Inl e, s')
               | Inr responseData \<Rightarrow>
                   (case choices_property responseData of
                      None \<Rightarrow>
                        (Inl (TypeError ''Cannot read properties of undefined (reading '0')''), s')
                    | Some [] \<Rightarrow>
                        (Inl (TypeError ''Cannot read properties of undefined (reading 'message')''), s')
                    | Some (c # _) \<Rightarrow>
                        (Inr \<lparr>role = Assistant,
                              content = Some (or_default (content (message c)) []),
                              msg_name = None, function_call = None\<rparr>, s')))))"

section \<open>\<^verbatim>\<open>retryOnOpenAiError\<close>\<close>

text \<open>
  The callable with its arguments bound: calling it acts on the world and gives an
  outcome; \<open>func_text\<close> and \<open>args_text\<close> are what the template literal prints for
  \<^verbatim>\<open>func\<close> and \<^verbatim>\<open>args\<close>.
\<close>

record ('a, 's) callable =
  invoke :: "'s \<Rightarrow> 'a outcome \<times> 's"
  func_text :: string
  args_text :: string

text \<open>
  The loop on \<^verbatim>\<open>retries\<close> and \<^verbatim>\<open>err\<close>. \<^verbatim>\<open>return func(...args)\<close> has no \<^verbatim>\<open>await\<close>:
  only a synchronous throw reaches the \<^verbatim>\<open>catch\<close>; a promise that \<^verbatim>\<open>func\<close> returns
  becomes the result, fulfilled or rejected.
\<close>

function retryLoop :: "JSON \<Rightarrow> ('a, 's) callable \<Rightarrow> nat \<Rightarrow> exn \<Rightarrow> 's \<Rightarrow> (exn + 'a) \<times> 's" where
  "retryLoop J func retries err s =
     (if retries < MAX_RETRIES
      then (case invoke func s of
              (Throws error, s') \<Rightarrow> retryLoop J func (retries + 1) error s'
            | (Returns v, s') \<Rightarrow> (Inr v, s')
            | (Resolves v, s') \<Rightarrow> (Inr v, s')
            | (Rejects e, s') \<Rightarrow> (Inl e, s'))
      else (case message_text J err of
              Inl e \<Rightarrow> (Inl e, s)
            | Inr shown \<Rightarrow>
                (Inl (Error (''Giving up after '' @ string_of_nat retries @ ''.'' @ newline
                  @ ''func='' @ func_text func @ newline
                  @ ''args='' @ args_text func @ newline
                  @ ''error='' @ shown)), s)))"
  by pat_completeness auto
termination
  by (relation "measure (\<lambda>(J, func, retries, err, s). MAX_RETRIES - retries)") auto

declare retryLoop.simps [simp del]

definition retryOnOpenAiError :: "JSON \<Rightarrow> ('a, 's) callable \<Rightarrow> 's \<Rightarrow> (exn + 'a) \<times> 's" where
  "retryOnOpenAiError J func s = retryLoop J func 0 (Error []) s"

section \<open>Function registry and \<^verbatim>\<open>dispatch\<close>\<close>

record ChatState =
  chatHistory :: ChatHistory

text \<open>
  A \<^verbatim>\<open>GptFunction\<close>: \<open>name\<close> is the class name the getter reads. The private field
  \<^verbatim>\<open>ajvValidateFunction\<close> is \<open>None\<close> while nothing has assigned it; when assigned, a call
  throws or gives a value, of which \<^verbatim>\<open>validate\<close> reads the truthiness.
\<close>

record ('z, 's) GptFunction =
  name :: string
  description :: string
  parameters :: json
  isNoOp :: bool
  ajvValidateFunction :: "(json \<Rightarrow> 's \<Rightarrow> (exn + bool) \<times> 's) option"
  do :: "'z ChatState_scheme \<Rightarrow> json \<Rightarrow> 's \<Rightarrow> json outcome \<times> 's"

text \<open>
  The constructor assigns \<^verbatim>\<open>description\<close>, \<^verbatim>\<open>parameters\<close> and \<^verbatim>\<open>isNoOp\<close>; the subclass
  brings its name and its \<^verbatim>\<open>do\<close>.
\<close>

definition GptFunction_new ::
  "string \<Rightarrow> ('z ChatState_scheme \<Rightarrow> json \<Rightarrow> 's \<Rightarrow> json outcome \<times> 's) \<Rightarrow> string \<Rightarrow> json \<Rightarrow> bool
     \<Rightarrow> ('z, 's) GptFunction" where
  "GptFunction_new className body description' parameters' isNoOp' =
     \<lparr>name = className, description = description', parameters = parameters',
      isNoOp = isNoOp', ajvValidateFunction = None, do = body\<rparr>"

datatype DispatchResult =
    FunctionCallInvalid string
  | FunctionSucceeded json
  | FunctionThrew exn

definition validate ::
  "('z, 's) GptFunction \<Rightarrow> json \<Rightarrow> 's \<Rightarrow> (exn + DispatchResult option) \<times> 's" where
  "validate this args s =
     (case ajvValidateFunction this of
        None \<Rightarrow> (Inl (TypeError ''this.ajvValidateFunction is not a function''), s)
      | Some ajv \<Rightarrow>
          (case ajv args s of
             (Inl e, s') \<Rightarrow> (Inl e, s')
           | (Inr valid, s') \<Rightarrow>
               if \<not> valid
               then (Inr (Some (FunctionCallInvalid
                       (''invalid arguments for function '' @ name this @ '':''))), s')
               else (Inr None, s')))"

record ('z, 's) GptFunctionsConfig =
  cfg_functions :: "('z, 's) GptFunction list"

text \<open>
  \<^verbatim>\<open>error instanceof Error ? error : new Error(JSON.stringify(error))\<close>; for
  \<^verbatim>\<open>undefined\<close> the serialisation is \<^verbatim>\<open>undefined\<close> and the new error has the empty
  message.
\<close>

definition asError :: "JSON \<Rightarrow> exn \<Rightarrow> exn" where
  "asError J error =
     (if instanceof_Error error then error
      else (case error of
              Thrown v \<Rightarrow> Error (stringify_value J v)
            | ThrownUndefined \<Rightarrow> Error []
            | _ \<Rightarrow> error))"

definition dispatch ::
  "JSON \<Rightarrow> ('z, 's) GptFunctionsConfig \<Rightarrow> 'z ChatState_scheme \<Rightarrow> 's
     \<Rightarrow> (exn + DispatchResult) \<times> 's" where
  "dispatch J this chatState s =
     (if chatHistory chatState = []
      then (Inl (TypeError ''Cannot read properties of undefined (reading 'function_call')''), s)
      else
        let assistantMessage = last (chatHistory chatState)
        in (case function_call assistantMessage of
              None \<Rightarrow> (Inl (TypeError ''Cannot read properties of undefined (reading 'name')''), s)
            | Some fc \<Rightarrow>
                let functionName = fc_name fc;
                    argumentsString = or_default (arguments fc) ''{}''
                in (case find (\<lambda>f. name f = functionName) (cfg_functions this) of
                      None \<Rightarrow> (Inr (FunctionCallInvalid (''unknown function '' @ functionName)), s)
                    | Some func \<Rightarrow>
                        (case JSON_parse J argumentsString of
                           None \<Rightarrow>
                             (Inr (FunctionCallInvalid
                                (''invalid JSON string for arguments: '' @ argumentsString)), s)
                         | Some args \<Rightarrow>
                             (case validate func args s of
                                (Inl e, s1) \<Rightarrow> (Inl e, s1)
                              | (Inr (Some validationErrorMessage), s1) \<Rightarrow>
                                  (Inr (FunctionCallInvalid
                                     (''invalid arguments for function '' @ functionName
                                        @ '': [object Object]'')), s1)
                              | (Inr None, s1) \<Rightarrow>
                                  if isNoOp func
                                  then (Inr (FunctionSucceeded JNull), s1)
                                  else
                                    (case do func chatState args s1 of
                                       (r, s2) \<Rightarrow>
                                         (case awaited r of
                                            Inr result \<Rightarrow> (Inr (FunctionSucceeded result), s2)
                                          | Inl error \<Rightarrow>
                                              (Inr (FunctionThrew (asError J error)), s2))))))))"

section \<open>The secondary entry point as the specification words it\<close>

text \<open>
  Following the specification's words, not the source: the main pipeline
  \<^verbatim>\<open>getChatCompletion\<close> applied to the exchange of the system message and one user
  prompt, without functions, of whose completion only the text content is returned.
\<close>

definition userMessage :: "string \<Rightarrow> ChatMessage" where
  "userMessage prompt = \<lparr>role = User, content = Some prompt, msg_name = None, function_call = None\<rparr>"

definition mainPipelineTextOnly ::
  "JSON \<Rightarrow> 's provider \<Rightarrow> string \<Rightarrow> string \<Rightarrow> string \<Rightarrow> rat \<Rightarrow> 's \<Rightarrow> (exn + ChatMessage) \<times> 's" where
  "mainPipelineTextOnly J createChatCompletion systemMessage prompt model temperature s =
     (case getChatCompletion J createChatCompletion [userMessage prompt] systemMessage model
             temperature None s of
        (Inl e, s') \<Rightarrow> (Inl e, s')
      | (Inr m, s') \<Rightarrow>
          (Inr \<lparr>role = Assistant, content = content m, msg_name = None, function_call = None\<rparr>, s'))"

section \<open>Concrete inputs\<close>

text \<open>
  Inputs at which the theorems below are evaluated. \<open>J0\<close> stands in for the runtime's
  JSON functions: it parses the text \<^verbatim>\<open>{}\<close> only and measures a message by its
  content. \<open>api0\<close> is a provider that records each request it receives and answers
  with the response \<open>answer0\<close>, a completion with one choice. For the registry the world is the number of times a body has run:
  \<open>FetchWeather\<close> is built by the constructor, \<open>Lookup\<close> and \<open>NoteDone\<close> also have a
  validator assigned, and \<open>NoteDone\<close> is a no-op. For the retried callables the world is
  the number of calls made.
\<close>

definition J0 :: JSON where
  "J0 = \<lparr>JSON_parse = (\<lambda>t. if t = ''{}'' then Some (JObject []) else None),
         stringify_value = (\<lambda>v. ''null''),
         stringify_message = (\<lambda>m. or_default (content m) []),
         stringify_functions = (\<lambda>f. ''null''),
         stringify_request = (\<lambda>r. ''{}''),
         template_text = (\<lambda>v. ''[object Object]'')\<rparr>"

definition history0 :: ChatHistory where
  "history0 = [userMessage (replicate 30000 (CHR ''x'')), userMessage ''2+2?'', userMessage ''and 3+3?'']"

definition answer0 :: AxiosResponse where
  "answer0 =
     \<lparr>data = \<lparr>choices = [\<lparr>message = \<lparr>role = Assistant, content = Some ''4'', msg_name = None,
                                         function_call = None\<rparr>\<rparr>]\<rparr>,
      status = 200, statusText = ''OK''\<rparr>"

definition api0 :: "CreateChatCompletionRequest list provider" where
  "api0 request sent = (Inr (Response answer0), sent @ [request])"

definition acceptAll :: "json \<Rightarrow> nat \<Rightarrow> (exn + bool) \<times> nat" where
  "acceptAll args n = (Inr True, n)"

definition FetchWeather :: "(unit, nat) GptFunction" where
  "FetchWeather =
     GptFunction_new ''FetchWeather''
       (\<lambda>chatState args n. (Resolves (JObject [(''temperature'', JString ''72F'')]), Suc n))
       ''Fetch weather data for a specified location and time''
       (JObject [(''where'', JObject [(''type'', JString ''string'')]),
                 (''when'', JObject [(''type'', JString ''string'')])])
       False"

definition Lookup :: "(unit, nat) GptFunction" where
  "Lookup = FetchWeather\<lparr>name := ''Lookup'', ajvValidateFunction := Some acceptAll\<rparr>"

definition NoteDone :: "(unit, nat) GptFunction" where
  "NoteDone = FetchWeather\<lparr>name := ''NoteDone'', isNoOp := True,
                            ajvValidateFunction := Some acceptAll\<rparr>"

definition registry0 :: "(unit, nat) GptFunctionsConfig" where
  "registry0 = \<lparr>cfg_functions = [FetchWeather, Lookup, NoteDone]\<rparr>"

definition chatCalling :: "string \<Rightarrow> string option \<Rightarrow> ChatState" where
  "chatCalling functionName argumentsString =
     \<lparr>chatHistory =
        [userMessage ''weather?'',
         \<lparr>role = Assistant, content = None, msg_name = None,
          function_call = Some \<lparr>fc_name = functionName, arguments = argumentsString\<rparr>\<rparr>]\<rparr>"

definition alwaysRejects :: "(string, nat) callable" where
  "alwaysRejects = \<lparr>invoke = (\<lambda>n. (Rejects (Error ''boom''), Suc n)),
                    func_text = ''f'', args_text = []\<rparr>"

definition alwaysThrows :: "(string, nat) callable" where
  "alwaysThrows = \<lparr>invoke = (\<lambda>n. (Throws (Error ''boom''), Suc n)),
                   func_text = ''f'', args_text = []\<rparr>"

lemmas fixtures = J0_def registry0_def FetchWeather_def Lookup_def NoteDone_def chatCalling_def
  GptFunction_new_def acceptAll_def userMessage_def or_default_def

section \<open>The context window\<close>

lemma includeOlder_le: "fst (includeOlder J B msgs i t) \<le> i"
proof (induction J B msgs i t rule: includeOlder.induct)
  case (1 J maxChars messages i t)
  show ?case
    using 1 by (subst includeOlder.simps) (auto split: if_splits)
qed

lemma includeOlder_total:
  assumes "i < length msgs"
      and "includeOlder J B msgs i t = (k, t')"
      and "t = b + sum_list (map (\<lambda>m. length (stringify_message J m)) (drop i msgs))"
  shows "t' = b + sum_list (map (\<lambda>m. length (stringify_message J m)) (drop k msgs))
         \<and> k \<le> i \<and> (k < i \<longrightarrow> of_nat t' < B)"
  using assms
proof (induction J B msgs i t arbitrary: k t' rule: includeOlder.induct)
  case (1 J maxChars messages i t)
  let ?len = "\<lambda>m. length (stringify_message J m)"
  show ?case
  proof (cases "i > 0 \<and> of_nat (t + ?len (messages ! (i - 1))) < maxChars")
    case True
    then have rec: "includeOlder J maxChars messages (i - 1) (t + ?len (messages ! (i - 1))) = (k, t')"
      using "1.prems"(2) by (subst (asm) includeOlder.simps) simp
    have lt: "i - 1 < length messages" using "1.prems"(1) by simp
    have "drop (i - 1) messages = messages ! (i - 1) # drop i messages"
      using True lt Cons_nth_drop_Suc [of "i - 1" messages] by simp
    then have tot: "t + ?len (messages ! (i - 1)) = b + sum_list (map ?len (drop (i - 1) messages))"
      using "1.prems"(3) by simp
    have ih: "t' = b + sum_list (map ?len (drop k messages)) \<and> k \<le> i - 1
              \<and> (k < i - 1 \<longrightarrow> of_nat t' < maxChars)"
      using "1.IH" [OF True lt rec tot] .
    show ?thesis
    proof (cases "k < i - 1")
      case True
      with ih show ?thesis by simp
    next
      case False
      with ih have keq: "k = i - 1" by simp
      from ih keq tot have "t' = t + ?len (messages ! (i - 1))" by simp
      with True ih keq show ?thesis by simp
    qed
  next
    case False
    then have "k = i" "t' = t"
      using "1.prems"(2) by (subst (asm) includeOlder.simps; auto)+
    with "1.prems"(3) show ?thesis by simp
  qed
qed


lemma includeOlder_mono:
  assumes "B1 \<le> B2"
  shows "fst (includeOlder J B2 msgs i t) \<le> fst (includeOlder J B1 msgs i t)"
  using assms
proof (induction J B1 msgs i t rule: includeOlder.induct)
  case (1 J maxChars messages i t)
  let ?len = "\<lambda>m. length (stringify_message J m)"
  show ?case
  proof (cases "i > 0 \<and> of_nat (t + ?len (messages ! (i - 1))) < maxChars")
    case True
    then have c2: "i > 0 \<and> of_nat (t + ?len (messages ! (i - 1))) < B2"
      using "1.prems" by simp
    show ?thesis
      using "1.IH" [OF True "1.prems"] True c2
      by (subst includeOlder.simps, subst (2) includeOlder.simps) simp
  next
    case False
    then have "fst (includeOlder J maxChars messages i t) = i"
      by (subst includeOlder.simps) auto
    then show ?thesis using includeOlder_le [of J B2 messages i t] by simp
  qed
qed

text \<open>
  Claim C2. For a non-empty history and a known model, \<^verbatim>\<open>getChatCompletion\<close> sends the
  provider the system message followed by the messages from some index \<open>k\<close> to the end
  of the history, so the window is a contiguous suffix that holds the most recent
  message; and unless the window is the most recent message alone, the serialised size of
  the system message, the function list and the kept messages is strictly below
  \<^verbatim>\<open>approximateMaxChars(model) * 0.8\<close>.
\<close>

theorem getChatCompletion_window:
  assumes "messages \<noteq> []" and "approximateMaxChars model = Inr approx"
  shows "\<exists>k. k < length messages \<and> last (drop k messages) = last messages \<and>
           getChatCompletion J api messages sys model temperature fns s =
             responseMessage_of J
               \<lparr>rq_model = model, rq_temperature = temperature,
                rq_messages = systemMessage_of sys # drop k messages, rq_functions = fns\<rparr>
               (api \<lparr>rq_model = model, rq_temperature = temperature,
                     rq_messages = systemMessage_of sys # drop k messages, rq_functions = fns\<rparr> s) \<and>
           (k < length messages - 1 \<longrightarrow>
              of_nat (baseChars_of J sys fns
                        + sum_list (map (\<lambda>m. length (stringify_message J m)) (drop k messages)))
                < of_nat approx * FRACTION_OF_MAX_CHARS_TO_USE)"
proof -
  let ?len = "\<lambda>m. length (stringify_message J m)"
  let ?B = "of_nat approx * FRACTION_OF_MAX_CHARS_TO_USE"
  let ?b = "baseChars_of J sys fns"
  let ?n = "length messages - 1"
  obtain k t where run: "includeOlder J ?B messages ?n (?b + ?len (messages ! ?n)) = (k, t)"
    by (cases "includeOlder J ?B messages ?n (?b + ?len (messages ! ?n))")
  have n: "?n < length messages" using assms(1) by simp
  have "drop ?n messages = [messages ! ?n]"
    using n Cons_nth_drop_Suc [of ?n messages] by simp
  then have t0: "?b + ?len (messages ! ?n) = ?b + sum_list (map ?len (drop ?n messages))"
    by simp
  have inv: "t = ?b + sum_list (map ?len (drop k messages)) \<and> k \<le> ?n \<and> (k < ?n \<longrightarrow> of_nat t < ?B)"
    using includeOlder_total [OF n run t0] .
  have sel: "selectStart J ?B ?b messages = Inr k"
    using assms(1) run by (simp add: selectStart_def Let_def)
  have rq: "openaiRequest_of J messages sys model temperature fns =
          Inr \<lparr>rq_model = model, rq_temperature = temperature,
                rq_messages = systemMessage_of sys # drop k messages, rq_functions = fns\<rparr>"
    using assms(2) sel by (simp add: openaiRequest_of_def Let_def)
  have klt: "k < length messages" using inv n by simp
  then have "last (drop k messages) = last messages" by simp
  moreover have "k < ?n \<longrightarrow> of_nat (?b + sum_list (map ?len (drop k messages))) < ?B"
    using inv by blast
  ultimately show ?thesis
    using klt rq by (intro exI [of _ k]) (simp add: getChatCompletion_def)
qed

theorem getChatCompletion_window_witness:
  "history0 \<noteq> [] \<and> approximateMaxChars ''gpt-4'' = Inr 32000 \<and>
   (\<exists>k. k < length history0 \<and> last (drop k history0) = last history0 \<and>
      getChatCompletion J0 api0 history0 ''You are terse.'' ''gpt-4'' 0 None [] =
        responseMessage_of J0
          \<lparr>rq_model = ''gpt-4'', rq_temperature = 0,
           rq_messages = systemMessage_of ''You are terse.'' # drop k history0, rq_functions = None\<rparr>
          (api0 \<lparr>rq_model = ''gpt-4'', rq_temperature = 0,
                 rq_messages = systemMessage_of ''You are terse.'' # drop k history0,
                 rq_functions = None\<rparr> []) \<and>
      (k < length history0 - 1 \<longrightarrow>
         of_nat (baseChars_of J0 ''You are terse.'' None
                   + sum_list (map (\<lambda>m. length (stringify_message J0 m)) (drop k history0)))
           < of_nat 32000 * FRACTION_OF_MAX_CHARS_TO_USE))"
proof -
  have h1: "history0 \<noteq> []" by (simp add: history0_def)
  have h2: "approximateMaxChars ''gpt-4'' = Inr 32000" by (simp add: approximateMaxChars_def)
  show ?thesis
    using h1 h2 getChatCompletion_window [OF h1 h2, of J0 api0 "''You are terse.''" 0 None "[]"]
    by blast
qed

lemma drop_suffix_mono: "k2 \<le> k1 \<Longrightarrow> suffix (drop k1 xs) (drop k2 xs)"
proof -
  assume "k2 \<le> k1"
  then have "drop k1 xs = drop (k1 - k2) (drop k2 xs)" by simp
  then show ?thesis by (metis suffix_drop)
qed

text \<open>
  Claim C3. The window grows with the budget: for a non-empty history and budgets
  \<open>B1 \<le> B2\<close>, the window for \<open>B2\<close> starts no later than the window for \<open>B1\<close>,
  so the messages kept under \<open>B1\<close> are a suffix of the messages kept under \<open>B2\<close>.
\<close>

theorem window_monotone_in_budget:
  assumes "messages \<noteq> []" and "B1 \<le> B2"
  shows "\<exists>k1 k2. selectStart J B1 baseChars messages = Inr k1 \<and>
                 selectStart J B2 baseChars messages = Inr k2 \<and>
                 k2 \<le> k1 \<and> k1 < length messages \<and>
                 suffix (drop k1 messages) (drop k2 messages)"
proof -
  let ?n = "length messages - 1"
  let ?t = "baseChars + length (stringify_message J (messages ! ?n))"
  let ?k1 = "fst (includeOlder J B1 messages ?n ?t)"
  let ?k2 = "fst (includeOlder J B2 messages ?n ?t)"
  have le: "?k2 \<le> ?k1" using assms(2) by (rule includeOlder_mono)
  have "?k1 \<le> ?n" by (rule includeOlder_le)
  moreover have "?n < length messages" using assms(1) by simp
  ultimately have lt: "?k1 < length messages" by (rule le_less_trans)
  have "selectStart J B1 baseChars messages = Inr ?k1" "selectStart J B2 baseChars messages = Inr ?k2"
    using assms(1) by (simp_all add: selectStart_def Let_def)
  with le lt drop_suffix_mono [OF le] show ?thesis by blast
qed

lemma history0_small: "selectStart J0 20 13 history0 = Inr 2"
  by (simp add: selectStart_def includeOlder.simps J0_def history0_def userMessage_def or_default_def)

lemma history0_large: "selectStart J0 25600 13 history0 = Inr 1"
  by (simp add: selectStart_def includeOlder.simps J0_def history0_def userMessage_def or_default_def)

theorem window_monotone_in_budget_witness:
  "history0 \<noteq> [] \<and> (20::rat) \<le> 25600 \<and>
   selectStart J0 20 13 history0 = Inr 2 \<and> selectStart J0 25600 13 history0 = Inr 1 \<and>
   suffix (drop 2 history0) (drop 1 history0)"
proof -
  have h1: "history0 \<noteq> []" by (simp add: history0_def)
  have h2: "(20::rat) \<le> 25600" by simp
  show ?thesis
    using h1 history0_small history0_large window_monotone_in_budget [OF h1 h2, of J0 13]
    by auto
qed

text \<open>
  Claim C10. For the empty history \<^verbatim>\<open>getChatCompletion\<close> fails and leaves the world as
  it was, whatever the provider is: no provider call is made. With the known model the
  failure is the \<^verbatim>\<open>TypeError\<close> of reading \<^verbatim>\<open>.length\<close> of the serialisation of the
  missing most recent message; for any other model the budget lookup, which comes first,
  has already thrown.
\<close>

theorem getChatCompletion_empty_history:
  "getChatCompletion J api [] sys model temperature fns s =
     (Inl (if model = ''gpt-4''
           then TypeError ''Cannot read properties of undefined (reading 'length')''
           else Error (''unknown model: '' @ model)), s)"
  by (simp add: getChatCompletion_def openaiRequest_of_def approximateMaxChars_def
        selectStart_def Let_def)

section \<open>The completion returned\<close>

lemma getChatCompletion_after_response:
  assumes "openaiRequest_of J messages sys model temperature fns = Inr openaiRequest"
      and "api openaiRequest s = (Inr (Response response), s')"
  shows "getChatCompletion J api messages sys model temperature fns s =
           (Inl (TypeError ''Cannot read properties of undefined (reading '0')''), s')"
  using assms
  by (simp add: getChatCompletion_def responseMessage_of_def
        validateCreateChatCompletionResponse_def choices_property_def)

lemma getCompletionUsingChatModel_after_response:
  assumes "api \<lparr>rq_model = model, rq_temperature = temperature,
                rq_messages =
                  [\<lparr>role = System, content = Some systemMessage, msg_name = None,
                    function_call = None\<rparr>,
                   \<lparr>role = User, content = Some prompt, msg_name = None, function_call = None\<rparr>],
                rq_functions = None\<rparr> s = (Inr (Response response), s')"
  shows "getCompletionUsingChatModel J api systemMessage prompt model temperature s =
           (Inl (TypeError ''Cannot read properties of undefined (reading '0')''), s')"
  using assms
  by (simp add: getCompletionUsingChatModel_def validateCreateChatCompletionResponse_def
        choices_property_def)

text \<open>
  Claim C7 at a successful provider call: the history is the one user message
  \<^verbatim>\<open>2+2?\<close>, the model is known, and the provider resolves with a response whose
  completion has one choice, the assistant message \<^verbatim>\<open>4\<close>. \<^verbatim>\<open>getChatCompletion\<close> reads
  \<^verbatim>\<open>choices\<close> from the response object, not from its \<^verbatim>\<open>data\<close>, and throws a
  \<^verbatim>\<open>TypeError\<close> after the call; the first choice's message is not returned.
\<close>

theorem getChatCompletion_reads_choices_off_response:
  "choices (data answer0)
     = [\<lparr>message = \<lparr>role = Assistant, content = Some ''4'', msg_name = None,
                     function_call = None\<rparr>\<rparr>] \<and>
   getChatCompletion J0 api0 [userMessage ''2+2?''] ''You are terse.'' ''gpt-4'' 0 None [] =
     (Inl (TypeError ''Cannot read properties of undefined (reading '0')''),
      [\<lparr>rq_model = ''gpt-4'', rq_temperature = 0,
        rq_messages = [systemMessage_of ''You are terse.'', userMessage ''2+2?''],
        rq_functions = None\<rparr>])"
  by (simp add: getChatCompletion_def openaiRequest_of_def approximateMaxChars_def
        selectStart_def includeOlder.simps responseMessage_of_def
        validateCreateChatCompletionResponse_def choices_property_def api0_def answer0_def)

lemma includeOlder_at_head: "includeOlder J B messages 0 t = (0, t)"
  by (simp add: includeOlder.simps)

lemma openaiRequest_of_single:
  "openaiRequest_of J [m] sys ''gpt-4'' temperature fns =
     Inr \<lparr>rq_model = ''gpt-4'', rq_temperature = temperature,
          rq_messages = [systemMessage_of sys, m], rq_functions = fns\<rparr>"
  by (simp add: openaiRequest_of_def approximateMaxChars_def selectStart_def includeOlder_at_head)

text \<open>
  Claim C8, as stated, fails at a model without a budget: \<^verbatim>\<open>getCompletionUsingChatModel\<close>
  makes no budget lookup and calls the provider, which receives the request, where the
  main pipeline on the same exchange stops with the unknown-model error before any call.
  The two results differ, and so do the two worlds.
\<close>

theorem completion_as_main_pipeline_counterexample:
  "getCompletionUsingChatModel J0 api0 ''You are terse.'' ''2+2?'' ''gpt-3.5-turbo'' 0 [] =
     (Inl (TypeError ''Cannot read properties of undefined (reading '0')''),
      [\<lparr>rq_model = ''gpt-3.5-turbo'', rq_temperature = 0,
        rq_messages = [systemMessage_of ''You are terse.'', userMessage ''2+2?''],
        rq_functions = None\<rparr>]) \<and>
   mainPipelineTextOnly J0 api0 ''You are terse.'' ''2+2?'' ''gpt-3.5-turbo'' 0 [] =
     (Inl (Error ''unknown model: gpt-3.5-turbo''), [])"
  by (simp add: getCompletionUsingChatModel_def mainPipelineTextOnly_def getChatCompletion_def
        openaiRequest_of_def approximateMaxChars_def api0_def
        validateCreateChatCompletionResponse_def choices_property_def systemMessage_of_def
        userMessage_def)

text \<open>
  Claim C8, amended. For the known model \<^verbatim>\<open>gpt-4\<close> and every system message, prompt,
  temperature, provider and world, \<^verbatim>\<open>getCompletionUsingChatModel\<close> has the same result
  and the same effect on the world as \<^verbatim>\<open>getChatCompletion\<close> applied to the one-message
  history of the user prompt with that system message and no functions, where a message
  returned by \<^verbatim>\<open>getChatCompletion\<close> is reduced to the role assistant, its content and no
  function call.
\<close>

theorem completion_as_main_pipeline_known_model:
  "getCompletionUsingChatModel J api systemMessage prompt ''gpt-4'' temperature s =
     mainPipelineTextOnly J api systemMessage prompt ''gpt-4'' temperature s"
proof -
  let ?rq = "\<lparr>rq_model = ''gpt-4'', rq_temperature = temperature,
          rq_messages = [systemMessage_of systemMessage, userMessage prompt], rq_functions = None\<rparr>"
  obtain r s' where call: "api ?rq s = (r, s')" by (cases "api ?rq s")
  show ?thesis
  proof (cases r)
    case (Inl error)
    with call show ?thesis
      by (simp add: getCompletionUsingChatModel_def mainPipelineTextOnly_def
            getChatCompletion_def openaiRequest_of_single responseMessage_of_def
            systemMessage_of_def userMessage_def)
  next
    case (Inr response)
    with call show ?thesis
      by (simp add: getCompletionUsingChatModel_def mainPipelineTextOnly_def
            getChatCompletion_def openaiRequest_of_single responseMessage_of_def
            systemMessage_of_def userMessage_def Let_def
          split: sum.split option.split list.split)
  qed
qed

section \<open>Retrying\<close>

lemma retryOnOpenAiError_first_rejection:
  assumes "invoke func s = (Rejects e, s')"
  shows "retryOnOpenAiError J func s = (Inl e, s')"
  using assms by (simp add: retryOnOpenAiError_def retryLoop.simps [of J func 0] MAX_RETRIES_def)

lemma retryOnOpenAiError_first_success:
  assumes "invoke func s = (Returns v, s') \<or> invoke func s = (Resolves v, s')"
  shows "retryOnOpenAiError J func s = (Inr v, s')"
  using assms by (auto simp: retryOnOpenAiError_def retryLoop.simps [of J func 0] MAX_RETRIES_def)

lemma retryLoop_always_throws:
  assumes "\<And>s. \<exists>m s'. invoke func s = (Throws (Error m), s')"
      and "retries \<le> MAX_RETRIES"
  shows "\<exists>m s'. retryLoop J func retries (Error m0) s =
           (Inl (Error (''Giving up after 5.'' @ newline
                  @ ''func='' @ func_text func @ newline
                  @ ''args='' @ args_text func @ newline
                  @ ''error='' @ m)), s')"
  using assms(2)
proof (induction "MAX_RETRIES - retries" arbitrary: retries m0 s)
  case 0
  then have "retries = MAX_RETRIES" by simp
  then show ?case
    by (subst retryLoop.simps) (auto simp: MAX_RETRIES_def)
next
  case (Suc n)
  then have lt: "retries < MAX_RETRIES" by simp
  obtain m1 s' where call: "invoke func s = (Throws (Error m1), s')"
    using assms(1) by blast
  have "n = MAX_RETRIES - (retries + 1)" using Suc.hyps(2) by simp
  moreover have "retries + 1 \<le> MAX_RETRIES" using lt by simp
  ultimately obtain m s'' where "retryLoop J func (retries + 1) (Error m1) s' =
           (Inl (Error (''Giving up after 5.'' @ newline
                  @ ''func='' @ func_text func @ newline
                  @ ''args='' @ args_text func @ newline
                  @ ''error='' @ m)), s'')"
    using Suc.hyps(1) by blast
  with lt call show ?case
    by (subst retryLoop.simps) auto
qed

lemma retryOnOpenAiError_alwaysThrows:
  "retryOnOpenAiError J alwaysThrows 0
     = (Inl (Error (''Giving up after 5.'' @ newline @ ''func=f'' @ newline @ ''args='' @ newline
                      @ ''error=boom'')), 5)"
  by (simp add: retryOnOpenAiError_def retryLoop.simps MAX_RETRIES_def alwaysThrows_def)

text \<open>
  Claim C4 at a callable that returns a rejected promise on every call (an
  \<^verbatim>\<open>async\<close> function that throws): \<^verbatim>\<open>retryOnOpenAiError\<close> calls it once, and its
  rejection is the result; there is no second attempt and no aggregated error.
\<close>

theorem retryOnOpenAiError_rejection_not_retried:
  "retryOnOpenAiError J0 alwaysRejects 0 = (Inl (Error ''boom''), 1)"
  by (simp add: retryOnOpenAiError_def retryLoop.simps MAX_RETRIES_def alwaysRejects_def)

section \<open>Dispatch\<close>

lemma dispatch_returns_when_validate_returns:
  assumes "chatHistory chatState \<noteq> []"
      and "function_call (last (chatHistory chatState)) = Some fc"
      and "\<And>func args. func \<in> set (cfg_functions this) \<Longrightarrow> \<exists>v s1. validate func args s = (Inr v, s1)"
  shows "\<exists>result s'. dispatch J this chatState s = (Inr result, s')"
proof (cases "find (\<lambda>f. name f = fc_name fc) (cfg_functions this)")
  case None
  with assms(1,2) show ?thesis by (simp add: dispatch_def Let_def)
next
  case (Some func)
  then have mem: "func \<in> set (cfg_functions this)"
    by (auto simp: find_Some_iff)
  show ?thesis
  proof (cases "JSON_parse J (or_default (arguments fc) ''{}'')")
    case None
    with Some assms(1,2) show ?thesis by (simp add: dispatch_def Let_def)
  next
    case (Some args)
    obtain v s1 where "validate func args s = (Inr v, s1)"
      using assms(3) [OF mem] by blast
    with Some \<open>find _ _ = Some func\<close> assms(1,2) show ?thesis
      by (simp add: dispatch_def Let_def split: option.split prod.split sum.split)
  qed
qed

lemma dispatch_unassigned_validator:
  assumes "chatHistory chatState \<noteq> []"
      and "function_call (last (chatHistory chatState)) = Some fc"
      and "find (\<lambda>f. name f = fc_name fc) (cfg_functions this) = Some func"
      and "ajvValidateFunction func = None"
      and "JSON_parse J (or_default (arguments fc) ''{}'') = Some args"
  shows "dispatch J this chatState s =
           (Inl (TypeError ''this.ajvValidateFunction is not a function''), s)"
  using assms by (simp add: dispatch_def validate_def Let_def)

text \<open>
  Claim C1 at a function built by the constructor, which leaves
  \<^verbatim>\<open>ajvValidateFunction\<close> unassigned: the call of \<^verbatim>\<open>validate\<close> is outside every
  \<^verbatim>\<open>try\<close>, so its \<^verbatim>\<open>TypeError\<close> leaves \<^verbatim>\<open>dispatch\<close> as an exception and no
  \<^verbatim>\<open>DispatchResult\<close> is returned.
\<close>

theorem dispatch_validate_TypeError_propagates:
  "dispatch J0 registry0 (chatCalling ''FetchWeather'' (Some ''{}'')) 0
     = (Inl (TypeError ''this.ajvValidateFunction is not a function''), 0)"
  by (simp add: dispatch_def validate_def fixtures)

lemma find_map_do:
  "find (\<lambda>f. name f = n) (map (\<lambda>f. f\<lparr>do := body\<rparr>) fs)
     = map_option (\<lambda>f. f\<lparr>do := body\<rparr>) (find (\<lambda>f. name f = n) fs)"
  by (induction fs) simp_all

lemma validate_ignores_do: "validate (f\<lparr>do := body\<rparr>) args s = validate f args s"
  by (simp add: validate_def split: option.split prod.split sum.split)

text \<open>
  Claim C5. When the requested name resolves to a function marked \<^verbatim>\<open>isNoOp\<close> and the
  arguments parse and validate, \<^verbatim>\<open>dispatch\<close> returns \<^verbatim>\<open>FunctionSucceeded\<close> with
  \<^verbatim>\<open>null\<close>, and the world is the one validation left: the body is not run, and
  replacing every body of the registry by any other changes nothing.
\<close>

theorem dispatch_noop_skips_body:
  assumes "chatHistory chatState \<noteq> []"
      and "function_call (last (chatHistory chatState)) = Some fc"
      and "find (\<lambda>f. name f = fc_name fc) (cfg_functions this) = Some func"
      and "isNoOp func"
      and "JSON_parse J (or_default (arguments fc) ''{}'') = Some args"
      and "validate func args s = (Inr None, s1)"
  shows "dispatch J this chatState s = (Inr (FunctionSucceeded JNull), s1) \<and>
         (\<forall>body. dispatch J \<lparr>cfg_functions = map (\<lambda>f. f\<lparr>do := body\<rparr>) (cfg_functions this)\<rparr>
                    chatState s = (Inr (FunctionSucceeded JNull), s1))"
  using assms
  by (simp add: dispatch_def Let_def find_map_do validate_ignores_do)

theorem dispatch_noop_skips_body_witness:
  "dispatch J0 registry0 (chatCalling ''NoteDone'' (Some ''{}'')) 0
     = (Inr (FunctionSucceeded JNull), 0)"
proof -
  let ?fc = "\<lparr>fc_name = ''NoteDone'', arguments = Some ''{}''\<rparr>"
  have h1: "chatHistory (chatCalling ''NoteDone'' (Some ''{}'')) \<noteq> []"
    by (simp add: chatCalling_def)
  have h2: "function_call (last (chatHistory (chatCalling ''NoteDone'' (Some ''{}'')))) = Some ?fc"
    by (simp add: chatCalling_def)
  have h3: "find (\<lambda>f. name f = fc_name ?fc) (cfg_functions registry0) = Some NoteDone"
    by (simp add: registry0_def FetchWeather_def Lookup_def NoteDone_def GptFunction_new_def)
  have h4: "isNoOp NoteDone" by (simp add: NoteDone_def)
  have h5: "JSON_parse J0 (or_default (arguments ?fc) ''{}'') = Some (JObject [])"
    by (simp add: J0_def or_default_def)
  have h6: "validate NoteDone (JObject []) 0 = (Inr None, 0)"
    by (simp add: validate_def NoteDone_def acceptAll_def)
  show ?thesis
    using dispatch_noop_skips_body [OF h1 h2 h3 h4 h5 h6] by simp
qed

text \<open>
  Claim C6, as stated, fails: the function is looked up before the arguments are parsed,
  so with an unregistered name and malformed arguments the result reports the unknown
  function, not the arguments; and the empty arguments string, which is not valid JSON,
  is replaced by \<^verbatim>\<open>{}\<close> and the call goes on.
\<close>

theorem dispatch_parse_first_counterexample:
  "JSON_parse J0 ''{oops'' = None \<and>
   dispatch J0 registry0 (chatCalling ''Unknown'' (Some ''{oops'')) 0
     = (Inr (FunctionCallInvalid ''unknown function Unknown''), 0) \<and>
   dispatch J0 registry0 (chatCalling ''Unknown'' (Some ''{oops'')) 0
     \<noteq> (Inr (FunctionCallInvalid ''invalid JSON string for arguments: {oops''), 0) \<and>
   JSON_parse J0 [] = None \<and>
   dispatch J0 registry0 (chatCalling ''NoteDone'' (Some [])) 0
     = (Inr (FunctionSucceeded JNull), 0)"
  by (simp add: dispatch_def validate_def fixtures)

text \<open>
  Claim C6, amended. \<^verbatim>\<open>dispatch\<close> looks the function up first and parses second.
  When the arguments string is not empty and does not parse, the result is
  \<^verbatim>\<open>FunctionCallInvalid\<close>: it reports the unknown function when the name is not
  registered, and the bad arguments string when it is. The world is unchanged: neither
  a validator nor a body has run.
\<close>

theorem dispatch_invalid_json:
  assumes "chatHistory chatState \<noteq> []"
      and "function_call (last (chatHistory chatState)) = Some fc"
      and "arguments fc = Some a" and "a \<noteq> []"
      and "JSON_parse J a = None"
  shows "dispatch J this chatState s =
           (Inr (FunctionCallInvalid
              (case find (\<lambda>f. name f = fc_name fc) (cfg_functions this) of
                 None \<Rightarrow> ''unknown function '' @ fc_name fc
               | Some func \<Rightarrow> ''invalid JSON string for arguments: '' @ a)), s)"
  using assms
  by (simp add: dispatch_def Let_def or_default_def split: option.split)

theorem dispatch_invalid_json_witness:
  "dispatch J0 registry0 (chatCalling ''Lookup'' (Some ''{oops'')) 0
     = (Inr (FunctionCallInvalid ''invalid JSON string for arguments: {oops''), 0)"
proof -
  let ?fc = "\<lparr>fc_name = ''Lookup'', arguments = Some ''{oops''\<rparr>"
  have h1: "chatHistory (chatCalling ''Lookup'' (Some ''{oops'')) \<noteq> []"
    by (simp add: chatCalling_def)
  have h2: "function_call (last (chatHistory (chatCalling ''Lookup'' (Some ''{oops'')))) = Some ?fc"
    by (simp add: chatCalling_def)
  have h3: "arguments ?fc = Some ''{oops''" by simp
  have h4: "''{oops'' \<noteq> []" by simp
  have h5: "JSON_parse J0 ''{oops'' = None" by (simp add: J0_def)
  have "find (\<lambda>f. name f = fc_name ?fc) (cfg_functions registry0) = Some Lookup"
    by (simp add: registry0_def FetchWeather_def Lookup_def NoteDone_def GptFunction_new_def)
  then show ?thesis
    using dispatch_invalid_json [OF h1 h2 h3 h4 h5, of registry0 0] by simp
qed

text \<open>
  Claim C9. When the arguments string is absent or empty and the function is
  registered, \<^verbatim>\<open>dispatch\<close> goes on with the value of \<^verbatim>\<open>JSON.parse("{}")\<close>, the empty
  object: validation receives it and, when it passes and the function is not a no-op,
  so does the body. The result is never the invalid-JSON one.
\<close>

theorem dispatch_default_arguments:
  assumes "chatHistory chatState \<noteq> []"
      and "function_call (last (chatHistory chatState)) = Some fc"
      and "arguments fc = None \<or> arguments fc = Some []"
      and "find (\<lambda>f. name f = fc_name fc) (cfg_functions this) = Some func"
      and "JSON_parse J ''{}'' = Some (JObject [])"
  shows "dispatch J this chatState s =
           (case validate func (JObject []) s of
              (Inl e, s1) \<Rightarrow> (Inl e, s1)
            | (Inr (Some validationErrorMessage), s1) \<Rightarrow>
                (Inr (FunctionCallInvalid
                   (''invalid arguments for function '' @ fc_name fc @ '': [object Object]'')), s1)
            | (Inr None, s1) \<Rightarrow>
                if isNoOp func then (Inr (FunctionSucceeded JNull), s1)
                else (case do func chatState (JObject []) s1 of
                        (r, s2) \<Rightarrow>
                          (case awaited r of
                             Inr result \<Rightarrow> (Inr (FunctionSucceeded result), s2)
                           | Inl error \<Rightarrow> (Inr (FunctionThrew (asError J error)), s2)))) \<and>
         (\<forall>a. fst (dispatch J this chatState s)
                \<noteq> Inr (FunctionCallInvalid (''invalid JSON string for arguments: '' @ a)))"
proof -
  have args: "or_default (arguments fc) ''{}'' = ''{}''"
    using assms(3) by (auto simp: or_default_def)
  have eq: "dispatch J this chatState s =
           (case validate func (JObject []) s of
              (Inl e, s1) \<Rightarrow> (Inl e, s1)
            | (Inr (Some validationErrorMessage), s1) \<Rightarrow>
                (Inr (FunctionCallInvalid
                   (''invalid arguments for function '' @ fc_name fc @ '': [object Object]'')), s1)
            | (Inr None, s1) \<Rightarrow>
                if isNoOp func then (Inr (FunctionSucceeded JNull), s1)
                else (case do func chatState (JObject []) s1 of
                        (r, s2) \<Rightarrow>
                          (case awaited r of
                             Inr result \<Rightarrow> (Inr (FunctionSucceeded result), s2)
                           | Inl error \<Rightarrow> (Inr (FunctionThrew (asError J error)), s2))))"
    using assms(1,2,4,5) args by (simp add: dispatch_def Let_def)
  have "fst (dispatch J this chatState s)
          \<noteq> Inr (FunctionCallInvalid (''invalid JSON string for arguments: '' @ a))" for a
    unfolding eq by (simp split: prod.split sum.split option.split)
  with eq show ?thesis by blast
qed

theorem dispatch_default_arguments_witness:
  "dispatch J0 registry0 (chatCalling ''Lookup'' None) 0
     = (Inr (FunctionSucceeded (JObject [(''temperature'', JString ''72F'')])), 1)"
proof -
  let ?fc = "\<lparr>fc_name = ''Lookup'', arguments = None\<rparr>"
  have h1: "chatHistory (chatCalling ''Lookup'' None) \<noteq> []"
    by (simp add: chatCalling_def)
  have h2: "function_call (last (chatHistory (chatCalling ''Lookup'' None))) = Some ?fc"
    by (simp add: chatCalling_def)
  have h3: "arguments ?fc = None \<or> arguments ?fc = Some []" by simp
  have h4: "find (\<lambda>f. name f = fc_name ?fc) (cfg_functions registry0) = Some Lookup"
    by (simp add: registry0_def FetchWeather_def Lookup_def NoteDone_def GptFunction_new_def)
  have h5: "JSON_parse J0 ''{}'' = Some (JObject [])" by (simp add: J0_def)
  have v: "validate Lookup (JObject []) 0 = (Inr None, 0)"
    by (simp add: validate_def Lookup_def acceptAll_def)
  have d: "do Lookup (chatCalling ''Lookup'' None) (JObject []) 0
             = (Resolves (JObject [(''temperature'', JString ''72F'')]), 1)"
    by (simp add: Lookup_def FetchWeather_def GptFunction_new_def)
  have n: "\<not> isNoOp Lookup"
    by (simp add: Lookup_def FetchWeather_def GptFunction_new_def)
  show ?thesis
    using dispatch_default_arguments [OF h1 h2 h3 h4 h5, of 0] v d n by simp
qed

end
